theory Spec2Isabelle
  imports Main
begin

section \<open>OffersScreen: catalog loading and order placement\<close>

text \<open>
  A shallow embedding of \<^verbatim>\<open>src/Screens/OffersScreen.tsx\<close>. The component keeps three
  pieces of React state (\<^verbatim>\<open>products\<close>, \<^verbatim>\<open>loading\<close>, \<^verbatim>\<open>refreshing\<close>), calls two operations
  of the remote service (\<^verbatim>\<open>getInventory\<close>, \<^verbatim>\<open>createOrder\<close>) and talks to the user through
  \<^verbatim>\<open>Alert.alert\<close>. State is passed explicitly; every call that leaves the component is
  recorded as an effect; an \<^verbatim>\<open>async\<close> function is split at its \<^verbatim>\<open>await\<close> into the part that
  runs up to the call and the part that runs once the promise has settled; a closure
  handed to a button is a value that holds the variables it captured.
\<close>

subsection \<open>Data\<close>

text \<open>
  \<^verbatim>\<open>Product\<close> is declared in \<^verbatim>\<open>../api/client\<close>; the fields below are the ones the screen
  reads. JavaScript numbers are only copied and printed by the screen, never computed
  with, so their type is the parameter \<open>'n\<close>. The field \<^verbatim>\<open>id\<close> is written \<open>id'\<close>.
\<close>

record 'n Product =
  id' :: string
  distributor_id :: string
  product_name :: string
  category :: "string option"
  price :: 'n
  moq :: 'n
  payment_modes :: "string list"
  lead_time :: "string option"
  stock_quantity :: 'n
  service_areas :: "string list"

text \<open>The argument of \<^verbatim>\<open>createOrder\<close> (lines 56 to 65).\<close>

record 'n OrderRequest =
  user_id :: string
  distributor_id :: string
  product_id :: string
  product_name :: string
  quantity :: 'n
  price :: 'n
  payment_mode :: string
  delivery_address :: string

text \<open>What \<^verbatim>\<open>createOrder\<close> resolves with; the screen reads \<^verbatim>\<open>order.order_id\<close>.\<close>

datatype Order = Order (order_id: string)

text \<open>
  What a rejected promise carries. The two operations are declared in \<^verbatim>\<open>../api/client\<close>;
  they reject with an error object, whose \<^verbatim>\<open>message\<close> is a string or is missing (\<open>None\<close>
  stands for \<^verbatim>\<open>undefined\<close>).
\<close>

datatype error = Error (message: "string option")

datatype 'a outcome = Resolved 'a | Rejected error

text \<open>The three \<^verbatim>\<open>useState\<close> cells (lines 19 to 21).\<close>

record 'n ViewState =
  products :: "'n Product list"
  loading :: bool
  refreshing :: bool

definition initialState :: "'n ViewState" where
  "initialState = \<lparr> products = [], loading = True, refreshing = False \<rparr>"

text \<open>
  A template literal is kept as its pieces, so that no number formatting has to be
  modelled; \<open>text_of\<close> joins them, given the formatting of numbers.
\<close>

datatype 'n piece = Str string | Num 'n

fun piece_text :: "('n \<Rightarrow> string) \<Rightarrow> 'n piece \<Rightarrow> string" where
  "piece_text fmt (Str s) = s"
| "piece_text fmt (Num n) = fmt n"

definition text_of :: "('n \<Rightarrow> string) \<Rightarrow> 'n piece list \<Rightarrow> string" where
  "text_of fmt ps = concat (map (piece_text fmt) ps)"

definition NL :: string where
  "NL = [CHR 0x0A]"

text \<open>The rupee sign U+20B9, as its UTF-8 bytes.\<close>

definition rupee :: string where
  "rupee = [CHR 0xE2, CHR 0x82, CHR 0xB9]"

text \<open>
  The closures the screen hands to alert buttons, each with the variables it captured:
  the \<^verbatim>\<open>onPress\<close> of the "Place Order" button (lines 54 to 75) captures \<^verbatim>\<open>userId\<close> and
  \<^verbatim>\<open>product\<close>; the \<^verbatim>\<open>onPress\<close> of the success alert's "OK" button (line 70) calls
  \<^verbatim>\<open>loadProducts()\<close>.
\<close>

datatype 'n handler = PlaceOrder_onPress string "'n Product" | Success_onPress

datatype 'n button =
  Button (btn_text: string) (btn_style: "string option") (onPress: "'n handler option")

text \<open>
  The arguments of one \<^verbatim>\<open>Alert.alert(title, message, buttons)\<close> call; \<open>None\<close> for the
  buttons when the call passes two arguments only.
\<close>

datatype 'n alert =
  Alert (title: string) (alert_message: "'n piece list") (buttons: "'n button list option")

text \<open>Calls that leave the component.\<close>

datatype 'n effect =
    GetInventory "string option" "bool option"
  | CreateOrder "'n OrderRequest"
  | Alert_alert "'n alert"

subsection \<open>JavaScript operators the screen uses\<close>

text \<open>\<^verbatim>\<open>xs[0]\<close>: \<^verbatim>\<open>undefined\<close> on an empty array.\<close>

fun index0 :: "'a list \<Rightarrow> 'a option" where
  "index0 [] = None"
| "index0 (x # xs) = Some x"

text \<open>
  \<^verbatim>\<open>x || d\<close> for a string or \<^verbatim>\<open>undefined\<close> on the left: the right operand is taken
  when the left one is falsy, and the empty string is falsy.
\<close>

fun or_else :: "string option \<Rightarrow> string \<Rightarrow> string" where
  "or_else None d = d"
| "or_else (Some s) d = (if s = [] then d else s)"

subsection \<open>The component\<close>

text \<open>The default of the destructured prop (line 17): \<^verbatim>\<open>({ userId = 'USER001' })\<close>.\<close>

definition OffersScreen_userId :: "string option \<Rightarrow> string" where
  "OffersScreen_userId prop = (case prop of None \<Rightarrow> ''USER001'' | Some u \<Rightarrow> u)"

text \<open>
  \<^verbatim>\<open>loadProducts\<close> (lines 23 to 34) up to its \<^verbatim>\<open>await\<close>: \<^verbatim>\<open>setLoading(true)\<close>, then the
  call \<^verbatim>\<open>getInventory(undefined, true)\<close>.
\<close>

definition loadProducts_begin :: "'n ViewState \<Rightarrow> 'n ViewState \<times> 'n effect list" where
  "loadProducts_begin s = (s\<lparr>loading := True\<rparr>, [GetInventory None (Some True)])"

text \<open>
  \<^verbatim>\<open>loadProducts\<close> after the promise has settled: \<^verbatim>\<open>setProducts(data)\<close> or the \<^verbatim>\<open>catch\<close>
  block, and then the \<^verbatim>\<open>finally\<close> block in both cases.
\<close>

definition loadProducts_resume ::
  "'n Product list outcome \<Rightarrow> 'n ViewState \<Rightarrow> 'n ViewState \<times> 'n effect list" where
  "loadProducts_resume r s =
     (let (s1, fx) =
        (case r of
           Resolved data \<Rightarrow> (s\<lparr>products := data\<rparr>, [])
         | Rejected error \<Rightarrow>
             (s, [Alert_alert
                    (Alert ''Error''
                       [Str (or_else (message error) ''Failed to load products'')] None)]))
      in (s1\<lparr>loading := False\<rparr>, fx))"

text \<open>One whole run of \<^verbatim>\<open>loadProducts\<close>, given how its fetch settles.\<close>

definition loadProducts ::
  "'n Product list outcome \<Rightarrow> 'n ViewState \<Rightarrow> 'n ViewState \<times> 'n effect list" where
  "loadProducts r s =
     (let (s1, fx1) = loadProducts_begin s;
          (s2, fx2) = loadProducts_resume r s1
      in (s2, fx1 @ fx2))"

text \<open>
  \<^verbatim>\<open>onRefresh\<close> (lines 36 to 40): \<^verbatim>\<open>setRefreshing(true)\<close>, then \<^verbatim>\<open>loadProducts()\<close> runs
  up to its own \<^verbatim>\<open>await\<close>; once that has finished, \<^verbatim>\<open>setRefreshing(false)\<close>.
\<close>

definition onRefresh_begin :: "'n ViewState \<Rightarrow> 'n ViewState \<times> 'n effect list" where
  "onRefresh_begin s = loadProducts_begin (s\<lparr>refreshing := True\<rparr>)"

definition onRefresh_resume ::
  "'n Product list outcome \<Rightarrow> 'n ViewState \<Rightarrow> 'n ViewState \<times> 'n effect list" where
  "onRefresh_resume r s =
     (let (s1, fx) = loadProducts_resume r s in (s1\<lparr>refreshing := False\<rparr>, fx))"

definition onRefresh ::
  "'n Product list outcome \<Rightarrow> 'n ViewState \<Rightarrow> 'n ViewState \<times> 'n effect list" where
  "onRefresh r s =
     (let (s1, fx1) = onRefresh_begin s;
          (s2, fx2) = onRefresh_resume r s1
      in (s2, fx1 @ fx2))"

text \<open>The object literal passed to \<^verbatim>\<open>createOrder\<close> (lines 56 to 65).\<close>

definition orderRequest :: "string \<Rightarrow> 'n Product \<Rightarrow> 'n OrderRequest" where
  "orderRequest userId product =
     \<lparr> user_id = userId,
       distributor_id = Product.distributor_id product,
       product_id = id' product,
       product_name = Product.product_name product,
       quantity = moq product,
       price = Product.price product,
       payment_mode = or_else (index0 (payment_modes product)) ''COD'',
       delivery_address = ''Default Address'' \<rparr>"

text \<open>
  \<^verbatim>\<open>handlePlaceOrder\<close> (lines 46 to 79) shows the confirmation alert and does nothing
  else; the alert's second button holds the closure that submits.
\<close>

definition handlePlaceOrder :: "string \<Rightarrow> 'n Product \<Rightarrow> 'n alert" where
  "handlePlaceOrder userId product =
     Alert ''Place Order''
       [Str ''Order '', Str (Product.product_name product), Str ''?'', Str NL, Str NL,
        Str ''Price: '', Str rupee, Num (Product.price product), Str NL,
        Str ''MOQ: '', Num (moq product), Str '' units'']
       (Some [Button ''Cancel'' (Some ''cancel'') None,
              Button ''Place Order'' None (Some (PlaceOrder_onPress userId product))])"

text \<open>The "Place Order" closure up to its \<^verbatim>\<open>await\<close>: the \<^verbatim>\<open>createOrder\<close> call.\<close>

definition placeOrder_begin :: "string \<Rightarrow> 'n Product \<Rightarrow> 'n effect list" where
  "placeOrder_begin userId product = [CreateOrder (orderRequest userId product)]"

text \<open>
  The closure after \<^verbatim>\<open>createOrder\<close> has settled: the success alert (lines 67 to 71,
  its arguments are \<open>success_alert\<close>) or the \<^verbatim>\<open>catch\<close> block (lines 72 to 74). Neither
  touches the React state.
\<close>

definition success_alert :: "Order \<Rightarrow> 'n alert" where
  "success_alert order =
     Alert ''Success''
       [Str ''Order placed successfully!'', Str NL, Str ''Order ID: '',
        Str (order_id order), Str NL, Str NL,
        Str ''The distributor will see it in their Orders tab.'']
       (Some [Button ''OK'' None (Some Success_onPress)])"

fun placeOrder_resume :: "Order outcome \<Rightarrow> 'n effect list" where
  "placeOrder_resume (Resolved order) = [Alert_alert (success_alert order)]"
| "placeOrder_resume (Rejected error) =
     [Alert_alert
        (Alert ''Error'' [Str (or_else (message error) ''Failed to place order'')] None)]"

text \<open>What the component returns (lines 81 to 185), down to which of its three views.\<close>

datatype 'n rendered = LoadingIndicator | EmptyState | Cards "'n Product list"

definition render :: "'n ViewState \<Rightarrow> 'n rendered" where
  "render s =
     (if loading s \<and> \<not> refreshing s then LoadingIndicator
      else if length (products s) = 0 then EmptyState
      else Cards (products s))"

subsection \<open>The screen at run time\<close>

text \<open>
  The component together with what surrounds it: the value of \<^verbatim>\<open>userId\<close> it was given,
  its state, the alerts on display, the \<^verbatim>\<open>async\<close> functions suspended at an \<^verbatim>\<open>await\<close>,
  and the trace of every call made so far.
\<close>

datatype suspended = Awaiting_loadProducts | Awaiting_onRefresh | Awaiting_placeOrder

record 'n Screen =
  prop_userId :: string
  view :: "'n ViewState"
  alerts :: "'n alert list"
  awaiting :: "suspended list"
  trace :: "'n effect list"

text \<open>
  What the user and the service can do: pull to refresh, press the order button of the
  i-th card, press button b of the d-th alert on display, settle the k-th suspended
  function's promise.
\<close>

datatype 'n event =
    PullToRefresh
  | PressOrderButton nat
  | PressAlertButton nat nat
  | InventorySettled nat "'n Product list outcome"
  | OrderSettled nat "Order outcome"

definition drop_nth :: "nat \<Rightarrow> 'a list \<Rightarrow> 'a list" where
  "drop_nth i xs = take i xs @ drop (Suc i) xs"

text \<open>Every call is appended to the trace; \<^verbatim>\<open>Alert.alert\<close> also puts the alert on display.\<close>

fun perform :: "'n effect \<Rightarrow> 'n Screen \<Rightarrow> 'n Screen" where
  "perform (Alert_alert a) sc = sc\<lparr>alerts := alerts sc @ [a], trace := trace sc @ [Alert_alert a]\<rparr>"
| "perform (GetInventory d a) sc = sc\<lparr>trace := trace sc @ [GetInventory d a]\<rparr>"
| "perform (CreateOrder r) sc = sc\<lparr>trace := trace sc @ [CreateOrder r]\<rparr>"

text \<open>A call \<^verbatim>\<open>loadProducts()\<close> (lines 43 and 70) and a call of \<^verbatim>\<open>onRefresh\<close> (line 95).\<close>

definition call_loadProducts :: "'n Screen \<Rightarrow> 'n Screen" where
  "call_loadProducts sc =
     (let (s, fx) = loadProducts_begin (view sc)
      in fold perform fx (sc\<lparr>view := s, awaiting := awaiting sc @ [Awaiting_loadProducts]\<rparr>))"

definition call_onRefresh :: "'n Screen \<Rightarrow> 'n Screen" where
  "call_onRefresh sc =
     (let (s, fx) = onRefresh_begin (view sc)
      in fold perform fx (sc\<lparr>view := s, awaiting := awaiting sc @ [Awaiting_onRefresh]\<rparr>))"

fun run_handler :: "'n handler \<Rightarrow> 'n Screen \<Rightarrow> 'n Screen" where
  "run_handler (PlaceOrder_onPress userId product) sc =
     fold perform (placeOrder_begin userId product)
       (sc\<lparr>awaiting := awaiting sc @ [Awaiting_placeOrder]\<rparr>)"
| "run_handler Success_onPress sc = call_loadProducts sc"

text \<open>
  The first render and the mount effect (lines 42 to 44): the state cells hold their
  initial values and \<^verbatim>\<open>loadProducts()\<close> is called once.
\<close>

definition mount :: "string option \<Rightarrow> 'n Screen" where
  "mount prop =
     call_loadProducts
       \<lparr> prop_userId = OffersScreen_userId prop, view = initialState,
         alerts = [], awaiting = [], trace = [] \<rparr>"

text \<open>
  Pressing a button of an alert dismisses the alert and runs the button's \<^verbatim>\<open>onPress\<close>,
  if it has one. An alert shown without buttons has the platform's single "OK" button,
  which only dismisses.
\<close>

definition press :: "nat \<Rightarrow> nat \<Rightarrow> 'n Screen \<Rightarrow> 'n Screen" where
  "press d b sc =
     (if d < length (alerts sc) then
        (case buttons (alerts sc ! d) of
           None \<Rightarrow> if b = 0 then sc\<lparr>alerts := drop_nth d (alerts sc)\<rparr> else sc
         | Some bs \<Rightarrow>
             if b < length bs then
               (case onPress (bs ! b) of
                  None \<Rightarrow> sc\<lparr>alerts := drop_nth d (alerts sc)\<rparr>
                | Some h \<Rightarrow> run_handler h (sc\<lparr>alerts := drop_nth d (alerts sc)\<rparr>))
             else sc)
      else sc)"

text \<open>
  One event. The refresh control and the cards exist only in the main view (lines 81 to
  88 return the loading indicator instead); the order button of a card calls
  \<^verbatim>\<open>handlePlaceOrder(product)\<close> with the product of that card (line 176). A settled promise
  resumes the function that awaits it.
\<close>

fun step :: "'n event \<Rightarrow> 'n Screen \<Rightarrow> 'n Screen" where
  "step PullToRefresh sc =
     (if render (view sc) = LoadingIndicator then sc else call_onRefresh sc)"
| "step (PressOrderButton i) sc =
     (case render (view sc) of
        Cards ps \<Rightarrow>
          if i < length ps
          then perform (Alert_alert (handlePlaceOrder (prop_userId sc) (ps ! i))) sc
          else sc
      | LoadingIndicator \<Rightarrow> sc
      | EmptyState \<Rightarrow> sc)"
| "step (PressAlertButton d b) sc = press d b sc"
| "step (InventorySettled k r) sc =
     (if k < length (awaiting sc) then
        (case awaiting sc ! k of
           Awaiting_loadProducts \<Rightarrow>
             (let (s, fx) = loadProducts_resume r (view sc)
              in fold perform fx (sc\<lparr>view := s, awaiting := drop_nth k (awaiting sc)\<rparr>))
         | Awaiting_onRefresh \<Rightarrow>
             (let (s, fx) = onRefresh_resume r (view sc)
              in fold perform fx (sc\<lparr>view := s, awaiting := drop_nth k (awaiting sc)\<rparr>))
         | Awaiting_placeOrder \<Rightarrow> sc)
      else sc)"
| "step (OrderSettled k r) sc =
     (if k < length (awaiting sc) then
        (case awaiting sc ! k of
           Awaiting_placeOrder \<Rightarrow>
             fold perform (placeOrder_resume r) (sc\<lparr>awaiting := drop_nth k (awaiting sc)\<rparr>)
         | Awaiting_loadProducts \<Rightarrow> sc
         | Awaiting_onRefresh \<Rightarrow> sc)
      else sc)"

definition run :: "'n event list \<Rightarrow> 'n Screen \<Rightarrow> 'n Screen" where
  "run evs sc = fold step evs sc"

text \<open>Which calls in a trace are calls of \<^verbatim>\<open>getInventory\<close>.\<close>

fun is_fetch :: "'n effect \<Rightarrow> bool" where
  "is_fetch (GetInventory d a) = True"
| "is_fetch (CreateOrder r) = False"
| "is_fetch (Alert_alert a) = False"

text \<open>
  The orders submitted in a trace, and the products the service has delivered in a
  list of events.
\<close>

fun requests :: "'n effect list \<Rightarrow> 'n OrderRequest list" where
  "requests [] = []"
| "requests (CreateOrder r # fx) = r # requests fx"
| "requests (GetInventory d a # fx) = requests fx"
| "requests (Alert_alert a # fx) = requests fx"

fun received :: "'n event list \<Rightarrow> 'n Product list" where
  "received [] = []"
| "received (InventorySettled k (Resolved data) # evs) = data @ received evs"
| "received (InventorySettled k (Rejected e) # evs) = received evs"
| "received (PullToRefresh # evs) = received evs"
| "received (PressOrderButton i # evs) = received evs"
| "received (PressAlertButton d b # evs) = received evs"
| "received (OrderSettled k r # evs) = received evs"

text \<open>
  What holds of the screen as long as every product the service delivers is in \<open>S\<close>:
  the prop is the one given at mount, the catalog and the products captured by the
  alerts on display are in \<open>S\<close>, and every order submitted so far was built by
  \<open>orderRequest\<close> from the prop and a product of \<open>S\<close>.
\<close>

definition derived :: "string \<Rightarrow> 'n Product set \<Rightarrow> 'n Screen \<Rightarrow> bool" where
  "derived u S sc \<longleftrightarrow>
     prop_userId sc = u \<and>
     set (products (view sc)) \<subseteq> S \<and>
     (\<forall>a \<in> set (alerts sc). \<forall>bs. buttons a = Some bs \<longrightarrow>
        (\<forall>b \<in> set bs. \<forall>u' p. onPress b = Some (PlaceOrder_onPress u' p) \<longrightarrow> u' = u \<and> p \<in> S)) \<and>
     set (requests (trace sc)) \<subseteq> orderRequest u ` S"

text \<open>Every call of \<^verbatim>\<open>getInventory\<close> the screen makes has the same two arguments.\<close>

definition only_available_fetches :: "'n effect list \<Rightarrow> bool" where
  "only_available_fetches t \<longleftrightarrow> set (filter is_fetch t) \<subseteq> {GetInventory None (Some True)}"

subsection \<open>Concrete inputs\<close>

definition rice :: "int Product" where
  "rice =
     \<lparr> id' = ''P1'', Product.distributor_id = ''D1'', Product.product_name = ''Rice'',
       category = None, Product.price = 40, moq = 10, payment_modes = [''UPI'', ''COD''],
       lead_time = None, stock_quantity = 5, service_areas = [] \<rparr>"

definition unnamed_mode :: "int Product" where
  "unnamed_mode =
     \<lparr> id' = ''P2'', Product.distributor_id = ''D1'', Product.product_name = ''Salt'',
       category = None, Product.price = 12, moq = 50, payment_modes = [''''],
       lead_time = None, stock_quantity = 900, service_areas = [] \<rparr>"

definition no_modes :: "int Product" where
  "no_modes =
     \<lparr> id' = ''P3'', Product.distributor_id = ''D2'', Product.product_name = ''Tea'',
       category = Some ''Beverages'', Product.price = 95, moq = 5, payment_modes = [],
       lead_time = None, stock_quantity = 30, service_areas = [''Pune''] \<rparr>"

definition rice_repriced :: "int Product" where
  "rice_repriced = rice\<lparr>Product.price := 45\<rparr>"

text \<open>
  The catalog arrives and the user presses the order button of the first card; then the
  user confirms.
\<close>

definition select_first :: "'n Product list \<Rightarrow> 'n event list" where
  "select_first catalog = [InventorySettled 0 (Resolved catalog), PressOrderButton 0]"

definition order_first :: "'n Product list \<Rightarrow> 'n event list" where
  "order_first catalog = select_first catalog @ [PressAlertButton 0 (Suc 0)]"

text \<open>
  While the confirmation alert is on display the user refreshes, and the service
  delivers another catalog.
\<close>

definition select_then_refresh ::
  "'n Product list \<Rightarrow> 'n Product list \<Rightarrow> 'n event list" where
  "select_then_refresh catalog catalog' =
     select_first catalog @ [PullToRefresh, InventorySettled 0 (Resolved catalog')]"

text \<open>A catalog of two products is on display and a refresh is in flight.\<close>

definition refreshing_screen :: "int Screen" where
  "refreshing_screen =
     run [InventorySettled 0 (Resolved [rice, no_modes]), PullToRefresh] (mount None)"

section \<open>Properties\<close>

subsection \<open>Auxiliary facts\<close>

lemma drop_nth_length_append [simp]: "drop_nth (length xs) (xs @ [a]) = xs"
  by (simp add: drop_nth_def)

lemma set_drop_nth: "set (drop_nth i xs) \<subseteq> set xs"
  unfolding drop_nth_def
  using set_take_subset [of i xs] set_drop_subset [of "Suc i" xs] by auto

lemma run_Nil [simp]: "run [] sc = sc"
  by (simp add: run_def)

lemma run_Cons [simp]: "run (ev # evs) sc = run evs (step ev sc)"
  by (simp add: run_def)

lemma run_append [simp]: "run (xs @ ys) sc = run ys (run xs sc)"
  by (simp add: run_def)

lemma call_loadProducts_eq:
  "call_loadProducts sc =
     sc\<lparr>view := (view sc)\<lparr>loading := True\<rparr>,
        awaiting := awaiting sc @ [Awaiting_loadProducts],
        trace := trace sc @ [GetInventory None (Some True)]\<rparr>"
  by (simp add: call_loadProducts_def loadProducts_begin_def)

lemma call_onRefresh_eq:
  "call_onRefresh sc =
     sc\<lparr>view := (view sc)\<lparr>refreshing := True, loading := True\<rparr>,
        awaiting := awaiting sc @ [Awaiting_onRefresh],
        trace := trace sc @ [GetInventory None (Some True)]\<rparr>"
  by (simp add: call_onRefresh_def onRefresh_begin_def loadProducts_begin_def)

text \<open>
  Every order the screen submits is built by \<open>orderRequest\<close> from the prop and a
  product the service delivered: \<open>derived\<close> holds after mounting and every event
  preserves it.
\<close>

lemma requests_append [simp]: "requests (xs @ ys) = requests xs @ requests ys"
  by (induction xs rule: requests.induct) simp_all

lemma derived_mount: "derived (OffersScreen_userId prop) S (mount prop)"
  by (simp add: derived_def mount_def call_loadProducts_eq initialState_def)

lemma render_Cards: "render s = Cards ps \<Longrightarrow> ps = products s"
  by (simp add: render_def split: if_splits)

lemma derived_call_loadProducts: "derived u S sc \<Longrightarrow> derived u S (call_loadProducts sc)"
  by (simp add: derived_def call_loadProducts_eq)

lemma derived_call_onRefresh: "derived u S sc \<Longrightarrow> derived u S (call_onRefresh sc)"
  by (simp add: derived_def call_onRefresh_eq)

lemma derived_dismiss:
  assumes "derived u S sc"
  shows "derived u S (sc\<lparr>alerts := drop_nth d (alerts sc)\<rparr>)"
  using assms set_drop_nth [of d "alerts sc"] unfolding derived_def by auto

lemma derived_handler:
  assumes "derived u S sc" and "h = Success_onPress \<or> (\<exists>p \<in> S. h = PlaceOrder_onPress u p)"
  shows "derived u S (run_handler h sc)"
proof (cases h)
  case (PlaceOrder_onPress u' p)
  with assms show ?thesis by (auto simp: derived_def placeOrder_begin_def)
next
  case Success_onPress
  with assms derived_call_loadProducts show ?thesis by simp
qed

lemma derived_press:
  assumes "derived u S sc"
  shows "derived u S (press d b sc)"
proof (cases "d < length (alerts sc)")
  case False
  with assms show ?thesis by (simp add: press_def)
next
  case d: True
  let ?sc = "sc\<lparr>alerts := drop_nth d (alerts sc)\<rparr>"
  have dis: "derived u S ?sc" using assms by (rule derived_dismiss)
  show ?thesis
  proof (cases "buttons (alerts sc ! d)")
    case None
    with d dis assms show ?thesis by (simp add: press_def)
  next
    case (Some bs)
    show ?thesis
    proof (cases "b < length bs")
      case False
      with d Some assms show ?thesis by (simp add: press_def)
    next
      case b: True
      show ?thesis
      proof (cases "onPress (bs ! b)")
        case None
        with d Some b dis show ?thesis by (simp add: press_def)
      next
        case (Some h)
        have "alerts sc ! d \<in> set (alerts sc)" using d by simp
        moreover have "bs ! b \<in> set bs" using b by simp
        ultimately have "h = Success_onPress \<or> (\<exists>p \<in> S. h = PlaceOrder_onPress u p)"
          using assms \<open>buttons (alerts sc ! d) = Some bs\<close> Some
          unfolding derived_def by (cases h) auto
        then have "derived u S (run_handler h ?sc)" using dis derived_handler by blast
        with d \<open>buttons (alerts sc ! d) = Some bs\<close> b Some show ?thesis
          by (simp add: press_def)
      qed
    qed
  qed
qed

lemma derived_select:
  assumes "derived u S sc" and "p \<in> S"
  shows "derived u S (perform (Alert_alert (handlePlaceOrder (prop_userId sc) p)) sc)"
  using assms by (auto simp: derived_def handlePlaceOrder_def)

lemma derived_load_resume:
  assumes "derived u S sc" and "\<And>data. r = Resolved data \<Longrightarrow> set data \<subseteq> S"
  shows "derived u S (fold perform (snd (loadProducts_resume r (view sc)))
           (sc\<lparr>view := fst (loadProducts_resume r (view sc)), awaiting := ws\<rparr>))"
  using assms by (cases r) (auto simp: derived_def loadProducts_resume_def)

lemma derived_refresh_resume:
  assumes "derived u S sc" and "\<And>data. r = Resolved data \<Longrightarrow> set data \<subseteq> S"
  shows "derived u S (fold perform (snd (onRefresh_resume r (view sc)))
           (sc\<lparr>view := fst (onRefresh_resume r (view sc)), awaiting := ws\<rparr>))"
  using assms by (cases r) (auto simp: derived_def onRefresh_resume_def loadProducts_resume_def)

lemma derived_order_resume:
  assumes "derived u S sc"
  shows "derived u S (fold perform (placeOrder_resume r) (sc\<lparr>awaiting := ws\<rparr>))"
  using assms by (cases r) (auto simp: derived_def success_alert_def)

lemma derived_step:
  assumes "derived u S sc" and "set (received [ev]) \<subseteq> S"
  shows "derived u S (step ev sc)"
proof (cases ev)
  case PullToRefresh
  with assms show ?thesis by (simp add: derived_call_onRefresh)
next
  case (PressOrderButton i)
  show ?thesis
  proof (cases "render (view sc)")
    case (Cards ps)
    then have ps: "ps = products (view sc)" by (rule render_Cards)
    show ?thesis
    proof (cases "i < length ps")
      case True
      then have "ps ! i \<in> S" using assms(1) ps unfolding derived_def by auto
      then have "derived u S (perform (Alert_alert (handlePlaceOrder (prop_userId sc) (ps ! i))) sc)"
        using assms(1) derived_select by blast
      with PressOrderButton Cards True show ?thesis by simp
    next
      case False
      with PressOrderButton Cards assms show ?thesis by simp
    qed
  qed (use PressOrderButton assms in simp_all)
next
  case (PressAlertButton d b)
  with assms derived_press show ?thesis by simp
next
  case (InventorySettled k r)
  have r: "\<And>data. r = Resolved data \<Longrightarrow> set data \<subseteq> S"
    using assms(2) InventorySettled by simp
  show ?thesis
  proof (cases "k < length (awaiting sc)")
    case False
    with InventorySettled assms show ?thesis by simp
  next
    case True
    show ?thesis
    proof (cases "awaiting sc ! k")
      case Awaiting_loadProducts
      with InventorySettled True derived_load_resume [OF assms(1) r]
      show ?thesis by (simp add: case_prod_beta)
    next
      case Awaiting_onRefresh
      with InventorySettled True derived_refresh_resume [OF assms(1) r]
      show ?thesis by (simp add: case_prod_beta)
    next
      case Awaiting_placeOrder
      with InventorySettled True assms show ?thesis by simp
    qed
  qed
next
  case (OrderSettled k r)
  show ?thesis
  proof (cases "k < length (awaiting sc)")
    case False
    with OrderSettled assms show ?thesis by simp
  next
    case True
    with OrderSettled assms(1) derived_order_resume [OF assms(1)] show ?thesis
      by (cases "awaiting sc ! k") simp_all
  qed
qed

lemma received_Cons: "set (received (ev # evs)) = set (received [ev]) \<union> set (received evs)"
proof (cases ev)
  case (InventorySettled k r)
  then show ?thesis by (cases r) simp_all
qed simp_all

lemma derived_run:
  "derived u S sc \<Longrightarrow> set (received evs) \<subseteq> S \<Longrightarrow> derived u S (run evs sc)"
proof (induction evs arbitrary: sc)
  case Nil
  then show ?case by (simp add: run_def)
next
  case (Cons ev evs)
  from Cons.prems(2) have 1: "set (received [ev]) \<subseteq> S" and 2: "set (received evs) \<subseteq> S"
    using received_Cons [of ev evs] by auto
  have "derived u S (step ev sc)" using Cons.prems(1) 1 by (rule derived_step)
  then have "derived u S (run evs (step ev sc))" using 2 by (rule Cons.IH)
  then show ?case by (simp add: run_def)
qed

lemma submitted_requests:
  assumes "r \<in> set (requests (trace (run evs (mount prop))))"
  shows "\<exists>p \<in> set (received evs). r = orderRequest (OffersScreen_userId prop) p"
proof -
  have "derived (OffersScreen_userId prop) (set (received evs)) (run evs (mount prop))"
    using derived_mount by (rule derived_run) simp
  with assms show ?thesis unfolding derived_def by auto
qed

text \<open>The only call of \<^verbatim>\<open>getInventory\<close> is the one in \<^verbatim>\<open>loadProducts\<close>.\<close>

lemma only_available_fetches_snoc:
  "only_available_fetches (t @ [e]) \<longleftrightarrow> only_available_fetches t \<and> (is_fetch e \<longrightarrow> e = GetInventory None (Some True))"
  by (auto simp: only_available_fetches_def)

lemma only_available_fetches_handler:
  "only_available_fetches (trace sc) \<Longrightarrow> only_available_fetches (trace (run_handler h sc))"
  by (cases h) (simp_all add: call_loadProducts_eq placeOrder_begin_def only_available_fetches_snoc)

lemma only_available_fetches_press:
  "only_available_fetches (trace sc) \<Longrightarrow> only_available_fetches (trace (press d b sc))"
  using only_available_fetches_handler [of "sc\<lparr>alerts := drop_nth d (alerts sc)\<rparr>"]
  by (simp add: press_def split: option.splits)

lemma only_available_fetches_step:
  assumes "only_available_fetches (trace sc)"
  shows "only_available_fetches (trace (step ev sc))"
proof (cases ev)
  case PullToRefresh
  with assms show ?thesis by (simp add: call_onRefresh_eq only_available_fetches_snoc)
next
  case (PressOrderButton i)
  with assms show ?thesis by (simp add: only_available_fetches_snoc split: rendered.splits)
next
  case (PressAlertButton d b)
  with assms show ?thesis by (simp add: only_available_fetches_press)
next
  case (InventorySettled k r)
  with assms show ?thesis
    by (cases r)
      (simp_all add: loadProducts_resume_def onRefresh_resume_def only_available_fetches_snoc
        split: suspended.splits)
next
  case (OrderSettled k r)
  with assms show ?thesis
    by (cases r) (simp_all add: only_available_fetches_snoc split: suspended.splits)
qed

lemma only_available_fetches_run:
  "only_available_fetches (trace sc) \<Longrightarrow> only_available_fetches (trace (run evs sc))"
  by (induction evs arbitrary: sc) (simp_all add: only_available_fetches_step)

lemma only_available_fetches_mount: "only_available_fetches (trace (mount prop))"
  by (simp add: mount_def call_loadProducts_eq only_available_fetches_def)

text \<open>Evaluating a run on concrete events.\<close>

lemmas screen_defs =
  mount_def call_loadProducts_eq call_onRefresh_eq initialState_def
  loadProducts_resume_def onRefresh_resume_def render_def drop_nth_def press_def
  handlePlaceOrder_def placeOrder_begin_def

lemma run_select_first:
  "c \<noteq> [] \<Longrightarrow> run (select_first c) (mount prop) =
     \<lparr> prop_userId = OffersScreen_userId prop,
       view = \<lparr> products = c, loading = False, refreshing = False \<rparr>,
       alerts = [handlePlaceOrder (OffersScreen_userId prop) (hd c)],
       awaiting = [],
       trace = [GetInventory None (Some True),
                Alert_alert (handlePlaceOrder (OffersScreen_userId prop) (hd c))] \<rparr>"
  by (cases c) (simp_all add: select_first_def screen_defs)

lemma run_order_first:
  "c \<noteq> [] \<Longrightarrow> run (order_first c) (mount prop) =
     \<lparr> prop_userId = OffersScreen_userId prop,
       view = \<lparr> products = c, loading = False, refreshing = False \<rparr>,
       alerts = [],
       awaiting = [Awaiting_placeOrder],
       trace = [GetInventory None (Some True),
                Alert_alert (handlePlaceOrder (OffersScreen_userId prop) (hd c)),
                CreateOrder (orderRequest (OffersScreen_userId prop) (hd c))] \<rparr>"
  by (cases c) (simp_all add: order_first_def select_first_def screen_defs)

lemma run_select_then_refresh:
  "c \<noteq> [] \<Longrightarrow> run (select_then_refresh c c') (mount prop) =
     \<lparr> prop_userId = OffersScreen_userId prop,
       view = \<lparr> products = c', loading = False, refreshing = False \<rparr>,
       alerts = [handlePlaceOrder (OffersScreen_userId prop) (hd c)],
       awaiting = [],
       trace = [GetInventory None (Some True),
                Alert_alert (handlePlaceOrder (OffersScreen_userId prop) (hd c)),
                GetInventory None (Some True)] \<rparr>"
  by (cases c) (simp_all add: select_then_refresh_def select_first_def screen_defs)

lemma refreshing_screen_eq:
  "refreshing_screen =
     \<lparr> prop_userId = ''USER001'',
       view = \<lparr> products = [rice, no_modes], loading = True, refreshing = True \<rparr>,
       alerts = [], awaiting = [Awaiting_onRefresh],
       trace = [GetInventory None (Some True), GetInventory None (Some True)] \<rparr>"
  by (simp add: refreshing_screen_def screen_defs OffersScreen_userId_def)

text \<open>What settling a promise does to the screen, case by case.\<close>

lemma or_else_cases:
  "or_else x d = (case x of None \<Rightarrow> d | Some m \<Rightarrow> if m = [] then d else m)"
  by (cases x) simp_all

lemma settle_load_rejected:
  "k < length (awaiting sc) \<Longrightarrow> awaiting sc ! k = Awaiting_loadProducts \<Longrightarrow>
   step (InventorySettled k (Rejected e)) sc =
     sc\<lparr>view := (view sc)\<lparr>loading := False\<rparr>,
        alerts := alerts sc @
          [Alert ''Error'' [Str (or_else (message e) ''Failed to load products'')] None],
        awaiting := drop_nth k (awaiting sc),
        trace := trace sc @
          [Alert_alert
             (Alert ''Error'' [Str (or_else (message e) ''Failed to load products'')] None)]\<rparr>"
  by (simp add: loadProducts_resume_def)

lemma settle_refresh_rejected:
  "k < length (awaiting sc) \<Longrightarrow> awaiting sc ! k = Awaiting_onRefresh \<Longrightarrow>
   step (InventorySettled k (Rejected e)) sc =
     sc\<lparr>view := (view sc)\<lparr>loading := False, refreshing := False\<rparr>,
        alerts := alerts sc @
          [Alert ''Error'' [Str (or_else (message e) ''Failed to load products'')] None],
        awaiting := drop_nth k (awaiting sc),
        trace := trace sc @
          [Alert_alert
             (Alert ''Error'' [Str (or_else (message e) ''Failed to load products'')] None)]\<rparr>"
  by (simp add: onRefresh_resume_def loadProducts_resume_def)

lemma settle_order_rejected:
  "k < length (awaiting sc) \<Longrightarrow> awaiting sc ! k = Awaiting_placeOrder \<Longrightarrow>
   step (OrderSettled k (Rejected e)) sc =
     sc\<lparr>alerts := alerts sc @
          [Alert ''Error'' [Str (or_else (message e) ''Failed to place order'')] None],
        awaiting := drop_nth k (awaiting sc),
        trace := trace sc @
          [Alert_alert
             (Alert ''Error'' [Str (or_else (message e) ''Failed to place order'')] None)]\<rparr>"
  by simp

lemma settle_order_resolved:
  "k < length (awaiting sc) \<Longrightarrow> awaiting sc ! k = Awaiting_placeOrder \<Longrightarrow>
   step (OrderSettled k (Resolved order)) sc =
     sc\<lparr>alerts := alerts sc @ [success_alert order],
        awaiting := drop_nth k (awaiting sc),
        trace := trace sc @ [Alert_alert (success_alert order)]\<rparr>"
  by simp

subsection \<open>The catalog loader\<close>

text \<open>
  Claim C3, as the code has it. \<^verbatim>\<open>onRefresh\<close> sets \<^verbatim>\<open>refreshing\<close> and then calls
  \<^verbatim>\<open>loadProducts\<close>, which sets \<^verbatim>\<open>loading\<close> as on every call: while the fetch of a refresh
  is in flight both flags are set, the catalog on display is kept, and the component does
  not return the loading indicator (line 81 asks for \<^verbatim>\<open>loading && !refreshing\<close>). When the
  refresh completes, with either outcome and whatever happened to the state in between,
  both flags are cleared.
\<close>

theorem refresh_sets_both_flags_and_clears_both:
  "loading (fst (onRefresh_begin s)) \<and> refreshing (fst (onRefresh_begin s)) \<and>
   products (fst (onRefresh_begin s)) = products s \<and>
   render (fst (onRefresh_begin s)) \<noteq> LoadingIndicator \<and>
   \<not> loading (fst (onRefresh_resume r s')) \<and> \<not> refreshing (fst (onRefresh_resume r s'))"
  by (cases r)
    (simp_all add: onRefresh_begin_def onRefresh_resume_def loadProducts_begin_def
      loadProducts_resume_def render_def)

text \<open>
  Claim C3 as stated says that \<^verbatim>\<open>loading\<close> is not set during a refresh. It is: after the
  first load has delivered a catalog \<^verbatim>\<open>loading\<close> is false, and pulling to refresh makes it
  true.
\<close>

theorem refresh_sets_loading_counterexample:
  "\<not> loading (view (run [InventorySettled 0 (Resolved [rice])] (mount None))) \<and>
   loading (view (run [InventorySettled 0 (Resolved [rice]), PullToRefresh] (mount None)))"
  by (simp add: run_def mount_def call_loadProducts_eq call_onRefresh_eq initialState_def
      loadProducts_resume_def render_def drop_nth_def)

text \<open>
  Claim C4. A run of \<^verbatim>\<open>loadProducts\<close> whose fetch is rejected, on its own or inside
  \<^verbatim>\<open>onRefresh\<close>, leaves \<^verbatim>\<open>products\<close> as it was and makes two calls: the one fetch and one
  alert, with the error's message or "Failed to load products". On the screen, when the
  fetch of a load is rejected, whether the load was started by the mount effect, by the
  success alert or inside a refresh, and whatever else is in flight, the catalog is the
  one from before, exactly one alert is shown and nothing is awaited in place of the
  failed fetch. Dismissing the alert calls nothing either: no retry is made.
\<close>

theorem failed_load_keeps_catalog:
  assumes "k < length (awaiting sc)" and "awaiting sc ! k \<noteq> Awaiting_placeOrder"
  shows "products (fst (loadProducts (Rejected e) s)) = products s \<and>
         products (fst (onRefresh (Rejected e) s)) = products s \<and>
         snd (loadProducts (Rejected e) s) =
           [GetInventory None (Some True),
            Alert_alert
              (Alert ''Error''
                 [Str (case message e of
                         None \<Rightarrow> ''Failed to load products''
                       | Some m \<Rightarrow> if m = [] then ''Failed to load products'' else m)]
                 None)] \<and>
         snd (onRefresh (Rejected e) s) = snd (loadProducts (Rejected e) s) \<and>
         products (view (step (InventorySettled k (Rejected e)) sc)) = products (view sc) \<and>
         trace (step (InventorySettled k (Rejected e)) sc) =
           trace sc @
           [Alert_alert
              (Alert ''Error''
                 [Str (case message e of
                         None \<Rightarrow> ''Failed to load products''
                       | Some m \<Rightarrow> if m = [] then ''Failed to load products'' else m)]
                 None)] \<and>
         awaiting (step (InventorySettled k (Rejected e)) sc) = drop_nth k (awaiting sc) \<and>
         trace (step (PressAlertButton (length (alerts sc)) b)
                  (step (InventorySettled k (Rejected e)) sc)) =
           trace (step (InventorySettled k (Rejected e)) sc) \<and>
         awaiting (step (PressAlertButton (length (alerts sc)) b)
                     (step (InventorySettled k (Rejected e)) sc)) =
           drop_nth k (awaiting sc)"
proof -
  have whole: "products (fst (loadProducts (Rejected e) s)) = products s \<and>
         products (fst (onRefresh (Rejected e) s)) = products s \<and>
         snd (loadProducts (Rejected e) s) =
           [GetInventory None (Some True),
            Alert_alert
              (Alert ''Error''
                 [Str (case message e of
                         None \<Rightarrow> ''Failed to load products''
                       | Some m \<Rightarrow> if m = [] then ''Failed to load products'' else m)]
                 None)] \<and>
         snd (onRefresh (Rejected e) s) = snd (loadProducts (Rejected e) s)"
    by (simp add: loadProducts_def onRefresh_def onRefresh_begin_def onRefresh_resume_def
        loadProducts_begin_def loadProducts_resume_def or_else_cases)
  have settled: "products (view (step (InventorySettled k (Rejected e)) sc)) = products (view sc) \<and>
         trace (step (InventorySettled k (Rejected e)) sc) =
           trace sc @
           [Alert_alert
              (Alert ''Error''
                 [Str (case message e of
                         None \<Rightarrow> ''Failed to load products''
                       | Some m \<Rightarrow> if m = [] then ''Failed to load products'' else m)]
                 None)] \<and>
         awaiting (step (InventorySettled k (Rejected e)) sc) = drop_nth k (awaiting sc) \<and>
         trace (step (PressAlertButton (length (alerts sc)) b)
                  (step (InventorySettled k (Rejected e)) sc)) =
           trace (step (InventorySettled k (Rejected e)) sc) \<and>
         awaiting (step (PressAlertButton (length (alerts sc)) b)
                     (step (InventorySettled k (Rejected e)) sc)) =
           drop_nth k (awaiting sc)"
  proof (cases "awaiting sc ! k")
    case Awaiting_loadProducts
    show ?thesis
      unfolding settle_load_rejected [OF assms(1) Awaiting_loadProducts]
      by (simp add: press_def or_else_cases)
  next
    case Awaiting_onRefresh
    show ?thesis
      unfolding settle_refresh_rejected [OF assms(1) Awaiting_onRefresh]
      by (simp add: press_def or_else_cases)
  next
    case Awaiting_placeOrder
    with assms(2) show ?thesis by simp
  qed
  from whole settled show ?thesis by blast
qed

theorem failed_load_keeps_catalog_witness:
  "0 < length (awaiting refreshing_screen) \<and>
   awaiting refreshing_screen ! 0 \<noteq> Awaiting_placeOrder \<and>
   products (view (step (InventorySettled 0 (Rejected (Error (Some ''Network request failed''))))
      refreshing_screen)) = [rice, no_modes] \<and>
   trace (step (InventorySettled 0 (Rejected (Error (Some ''Network request failed''))))
      refreshing_screen) =
     [GetInventory None (Some True), GetInventory None (Some True),
      Alert_alert (Alert ''Error'' [Str ''Network request failed''] None)] \<and>
   awaiting (step (PressAlertButton 0 0)
      (step (InventorySettled 0 (Rejected (Error (Some ''Network request failed''))))
         refreshing_screen)) = [] \<and>
   fst (loadProducts (Rejected (Error (Some ''Network request failed'')))
      \<lparr> products = [rice], loading = False, refreshing = False \<rparr>) =
     \<lparr> products = [rice], loading = False, refreshing = False \<rparr> \<and>
   snd (loadProducts (Rejected (Error (Some ''Network request failed'')))
      \<lparr> products = [rice], loading = False, refreshing = False \<rparr>) =
     [GetInventory None (Some True),
      Alert_alert (Alert ''Error'' [Str ''Network request failed''] None)]"
proof -
  have h1: "0 < length (awaiting refreshing_screen)"
    by (simp add: refreshing_screen_eq)
  have h2: "awaiting refreshing_screen ! 0 \<noteq> Awaiting_placeOrder"
    by (simp add: refreshing_screen_eq)
  from failed_load_keeps_catalog
    [OF h1 h2, where e = "Error (Some ''Network request failed'')" and b = 0
       and s = "\<lparr> products = [rice], loading = False, refreshing = False \<rparr>"] h1 h2
  show ?thesis
    by (simp add: refreshing_screen_eq drop_nth_def loadProducts_def loadProducts_begin_def
        loadProducts_resume_def)
qed

text \<open>
  Claim C7. A run of \<^verbatim>\<open>loadProducts\<close>, on its own or inside \<^verbatim>\<open>onRefresh\<close>, calls
  \<^verbatim>\<open>getInventory\<close> exactly once, whatever the outcome, with \<^verbatim>\<open>undefined\<close> for the distributor
  and \<^verbatim>\<open>true\<close> for only-available; when the fetch resolves, \<^verbatim>\<open>products\<close> is the list the
  service returned, in its order, whatever it was before. And whatever the user and the
  service do after the screen is mounted, every call of \<^verbatim>\<open>getInventory\<close> in the trace has
  these two arguments.
\<close>

theorem load_fetches_once_and_replaces:
  "snd (loadProducts_begin s) = [GetInventory None (Some True)] \<and>
   filter is_fetch (snd (loadProducts r s)) = [GetInventory None (Some True)] \<and>
   filter is_fetch (snd (onRefresh r s)) = [GetInventory None (Some True)] \<and>
   products (fst (loadProducts (Resolved data) s)) = data \<and>
   products (fst (onRefresh (Resolved data) s)) = data \<and>
   (c \<in> set (trace (run evs (mount prop))) \<and> is_fetch c \<longrightarrow>
      c = GetInventory None (Some True))"
proof -
  have "snd (loadProducts_begin s) = [GetInventory None (Some True)] \<and>
   filter is_fetch (snd (loadProducts r s)) = [GetInventory None (Some True)] \<and>
   filter is_fetch (snd (onRefresh r s)) = [GetInventory None (Some True)] \<and>
   products (fst (loadProducts (Resolved data) s)) = data \<and>
   products (fst (onRefresh (Resolved data) s)) = data"
    by (cases r)
      (simp_all add: loadProducts_def onRefresh_def onRefresh_begin_def onRefresh_resume_def
        loadProducts_begin_def loadProducts_resume_def)
  moreover have "only_available_fetches (trace (run evs (mount prop)))"
    using only_available_fetches_mount by (rule only_available_fetches_run)
  then have "c \<in> set (trace (run evs (mount prop))) \<and> is_fetch c \<longrightarrow>
      c = GetInventory None (Some True)"
    by (auto simp: only_available_fetches_def)
  ultimately show ?thesis by blast
qed

theorem load_fetches_once_and_replaces_witness:
  "GetInventory None (Some True)
     \<in> set (trace (run (select_then_refresh [rice] [rice_repriced]) (mount None))) \<and>
   is_fetch (GetInventory None (Some True) :: int effect) \<and>
   filter is_fetch (trace (run (select_then_refresh [rice] [rice_repriced]) (mount None))) =
     [GetInventory None (Some True), GetInventory None (Some True)] \<and>
   products (view (run (select_then_refresh [rice] [rice_repriced]) (mount None))) =
     [rice_repriced] \<and>
   products (fst (loadProducts (Resolved [no_modes, rice])
      \<lparr> products = [rice], loading = False, refreshing = False \<rparr>)) = [no_modes, rice]"
proof -
  have h: "GetInventory None (Some True)
     \<in> set (trace (run (select_then_refresh [rice] [rice_repriced]) (mount None))) \<and>
   is_fetch (GetInventory None (Some True) :: int effect)"
    by (simp add: run_select_then_refresh)
  from load_fetches_once_and_replaces
    [of "\<lparr> products = [rice], loading = False, refreshing = False \<rparr>"
        "Resolved [no_modes, rice]" "[no_modes, rice]" "GetInventory None (Some True)"
        "select_then_refresh [rice] [rice_repriced]" None] h
  show ?thesis by (simp add: run_select_then_refresh)
qed

text \<open>
  Claim C10. \<^verbatim>\<open>products\<close> starts empty. If the first fetch is rejected, the state afterwards
  is empty products with both flags false, the same state as after a first fetch that
  resolved with an empty list, and the component returns the empty-catalog view.
\<close>

theorem failed_initial_load_looks_like_empty_catalog:
  "products (initialState :: 'n ViewState) = [] \<and>
   view (step (InventorySettled 0 (Rejected e)) (mount prop :: 'n Screen)) =
     \<lparr> products = [], loading = False, refreshing = False \<rparr> \<and>
   view (step (InventorySettled 0 (Rejected e)) (mount prop :: 'n Screen)) =
     view (step (InventorySettled 0 (Resolved [])) (mount prop)) \<and>
   render (view (step (InventorySettled 0 (Rejected e)) (mount prop :: 'n Screen))) = EmptyState"
  by (simp add: mount_def call_loadProducts_eq initialState_def
      loadProducts_resume_def render_def drop_nth_def)

subsection \<open>The order submitter\<close>

text \<open>
  Claim C1. Whatever the user and the service do after the screen is mounted, every
  request passed to \<^verbatim>\<open>createOrder\<close> was built from a product P that the service had
  delivered, and its quantity is the minimum order quantity of P.
\<close>

theorem submitted_quantity_is_moq:
  assumes "r \<in> set (requests (trace (run evs (mount prop))))"
  shows "\<exists>p \<in> set (received evs).
           r = orderRequest (OffersScreen_userId prop) p \<and> quantity r = moq p"
proof -
  from assms obtain p where "p \<in> set (received evs)"
    and "r = orderRequest (OffersScreen_userId prop) p"
    using submitted_requests by blast
  moreover from this have "quantity r = moq p" by (simp add: orderRequest_def)
  ultimately show ?thesis by blast
qed

theorem submitted_quantity_is_moq_witness:
  "orderRequest ''USER001'' rice
     \<in> set (requests (trace (run (order_first [rice]) (mount None)))) \<and>
   (\<exists>p \<in> set (received (order_first [rice])).
      orderRequest ''USER001'' rice = orderRequest (OffersScreen_userId None) p \<and>
      quantity (orderRequest ''USER001'' rice) = moq p) \<and>
   quantity (orderRequest ''USER001'' rice) = 10"
proof -
  have h: "orderRequest ''USER001'' rice
             \<in> set (requests (trace (run (order_first [rice]) (mount None))))"
    by (simp add: run_order_first OffersScreen_userId_def)
  from submitted_quantity_is_moq [OF h] h show ?thesis
    by (simp add: orderRequest_def rice_def)
qed

text \<open>
  Claim C2, as the code has it. Line 63 is \<^verbatim>\<open>product.payment_modes[0] || 'COD'\<close>: the
  payment mode of every submitted request is "COD" when the product's list is empty and
  also when its first element is the empty string, and the first element otherwise.
\<close>

theorem submitted_payment_mode:
  assumes "r \<in> set (requests (trace (run evs (mount prop))))"
  shows "\<exists>p \<in> set (received evs).
           r = orderRequest (OffersScreen_userId prop) p \<and>
           payment_mode r =
             (case payment_modes p of
                [] \<Rightarrow> ''COD''
              | m # ms \<Rightarrow> if m = [] then ''COD'' else m)"
proof -
  from assms obtain p where "p \<in> set (received evs)"
    and "r = orderRequest (OffersScreen_userId prop) p"
    using submitted_requests by blast
  moreover from this have "payment_mode r =
      (case payment_modes p of [] \<Rightarrow> ''COD'' | m # ms \<Rightarrow> if m = [] then ''COD'' else m)"
    by (simp add: orderRequest_def split: list.splits)
  ultimately show ?thesis by blast
qed

theorem submitted_payment_mode_witness:
  "orderRequest ''USER001'' no_modes
     \<in> set (requests (trace (run (order_first [no_modes]) (mount None)))) \<and>
   (\<exists>p \<in> set (received (order_first [no_modes])).
      orderRequest ''USER001'' no_modes = orderRequest (OffersScreen_userId None) p \<and>
      payment_mode (orderRequest ''USER001'' no_modes) =
        (case payment_modes p of [] \<Rightarrow> ''COD'' | m # ms \<Rightarrow> if m = [] then ''COD'' else m)) \<and>
   payment_mode (orderRequest ''USER001'' no_modes) = ''COD'' \<and>
   payment_mode (orderRequest ''USER001'' rice) = ''UPI''"
proof -
  have h: "orderRequest ''USER001'' no_modes
             \<in> set (requests (trace (run (order_first [no_modes]) (mount None))))"
    by (simp add: run_order_first OffersScreen_userId_def)
  from submitted_payment_mode [OF h] h show ?thesis
    by (simp add: orderRequest_def rice_def no_modes_def)
qed

text \<open>
  Claim C2 as stated promises the first element for every value of it. A product whose
  list of payment modes is not empty and starts with the empty string is ordered with
  "COD", which is not its first element.
\<close>

theorem first_payment_mode_counterexample:
  "payment_modes unnamed_mode \<noteq> [] \<and>
   requests (trace (run (order_first [unnamed_mode]) (mount None))) =
     [orderRequest ''USER001'' unnamed_mode] \<and>
   payment_mode (orderRequest ''USER001'' unnamed_mode) = ''COD'' \<and>
   payment_mode (orderRequest ''USER001'' unnamed_mode) \<noteq> payment_modes unnamed_mode ! 0"
  by (simp add: run_order_first OffersScreen_userId_def)
    (simp add: orderRequest_def unnamed_mode_def)

text \<open>
  Claim C5. A submission starts when "Place Order" is pressed on the confirmation alert
  and ends when \<^verbatim>\<open>createOrder\<close> settles. Pressing the button leaves the state of the screen
  (catalog and both flags) as it was, and so does a rejected \<^verbatim>\<open>createOrder\<close>, after which
  exactly one alert is shown, titled "Error", whose text is the error's message when the
  error has one that is not empty, and "Failed to place order" when it has none (line
  73, \<^verbatim>\<open>error.message || 'Failed to place order'\<close>, takes an empty message for a missing
  one).
\<close>

theorem failed_order_keeps_state:
  assumes "d < length (alerts sc0)" and "alerts sc0 ! d = handlePlaceOrder u p"
    and "k < length (awaiting sc)" and "awaiting sc ! k = Awaiting_placeOrder"
  shows "view (step (PressAlertButton d 1) sc0) = view sc0 \<and>
         awaiting (step (PressAlertButton d 1) sc0) = awaiting sc0 @ [Awaiting_placeOrder] \<and>
         view (step (OrderSettled k (Rejected e)) sc) = view sc \<and>
         (\<exists>a. trace (step (OrderSettled k (Rejected e)) sc) = trace sc @ [Alert_alert a] \<and>
              alerts (step (OrderSettled k (Rejected e)) sc) = alerts sc @ [a] \<and>
              title a = ''Error'' \<and>
              text_of fmt (alert_message a) =
                (case message e of
                   None \<Rightarrow> ''Failed to place order''
                 | Some m \<Rightarrow> if m = [] then ''Failed to place order'' else m))"
proof -
  have "view (step (PressAlertButton d 1) sc0) = view sc0 \<and>
        awaiting (step (PressAlertButton d 1) sc0) = awaiting sc0 @ [Awaiting_placeOrder]"
    using assms(1,2) by (simp add: press_def handlePlaceOrder_def placeOrder_begin_def)
  moreover have "view (step (OrderSettled k (Rejected e)) sc) = view sc \<and>
         (\<exists>a. trace (step (OrderSettled k (Rejected e)) sc) = trace sc @ [Alert_alert a] \<and>
              alerts (step (OrderSettled k (Rejected e)) sc) = alerts sc @ [a] \<and>
              title a = ''Error'' \<and>
              text_of fmt (alert_message a) =
                (case message e of
                   None \<Rightarrow> ''Failed to place order''
                 | Some m \<Rightarrow> if m = [] then ''Failed to place order'' else m))"
    unfolding settle_order_rejected [OF assms(3,4)]
    by (simp add: text_of_def or_else_cases)
  ultimately show ?thesis by blast
qed

theorem failed_order_keeps_state_witness:
  "0 < length (alerts (run (select_first [rice]) (mount None))) \<and>
   alerts (run (select_first [rice]) (mount None)) ! 0 = handlePlaceOrder ''USER001'' rice \<and>
   0 < length (awaiting (run (order_first [rice]) (mount None))) \<and>
   awaiting (run (order_first [rice]) (mount None)) ! 0 = Awaiting_placeOrder \<and>
   products (view (run (order_first [rice]) (mount None))) = [rice] \<and>
   products (view (step (OrderSettled 0 (Rejected (Error (Some ''Insufficient stock''))))
      (run (order_first [rice]) (mount None)))) = [rice] \<and>
   (\<exists>a. alerts (step (OrderSettled 0 (Rejected (Error (Some ''Insufficient stock''))))
           (run (order_first [rice]) (mount None))) = [a] \<and>
        text_of (\<lambda>n. []) (alert_message a) = ''Insufficient stock'')"
proof -
  have h1: "0 < length (alerts (run (select_first [rice]) (mount None)))"
    by (simp add: run_select_first)
  have h2: "alerts (run (select_first [rice]) (mount None)) ! 0 = handlePlaceOrder ''USER001'' rice"
    by (simp add: run_select_first OffersScreen_userId_def)
  have h3: "0 < length (awaiting (run (order_first [rice]) (mount None)))"
    by (simp add: run_order_first)
  have h4: "awaiting (run (order_first [rice]) (mount None)) ! 0 = Awaiting_placeOrder"
    by (simp add: run_order_first)
  from failed_order_keeps_state
    [OF h1 h2 h3 h4, of "Error (Some ''Insufficient stock'')" "\<lambda>n. []"] h1 h2 h3 h4
  show ?thesis by (simp add: run_order_first)
qed

text \<open>
  Claim C6. While a submission is in flight: if \<^verbatim>\<open>createOrder\<close> resolves, the success
  alert is shown and nothing else is called; pressing its "OK" calls \<^verbatim>\<open>getInventory\<close>
  once, after the alert in the trace, and dismisses the alert, so it cannot be pressed
  again; by then the submission is no longer awaited. If \<^verbatim>\<open>createOrder\<close> is rejected, no
  fetch is made, and dismissing the error alert calls nothing.
\<close>

theorem reload_after_acknowledged_success_only:
  assumes "k < length (awaiting sc)" and "awaiting sc ! k = Awaiting_placeOrder"
  shows "trace (step (OrderSettled k (Resolved order)) sc) =
           trace sc @ [Alert_alert (success_alert order)] \<and>
         alerts (step (OrderSettled k (Resolved order)) sc) = alerts sc @ [success_alert order] \<and>
         awaiting (step (OrderSettled k (Resolved order)) sc) = drop_nth k (awaiting sc) \<and>
         trace (step (PressAlertButton (length (alerts sc)) 0)
                  (step (OrderSettled k (Resolved order)) sc)) =
           trace sc @ [Alert_alert (success_alert order), GetInventory None (Some True)] \<and>
         alerts (step (PressAlertButton (length (alerts sc)) 0)
                  (step (OrderSettled k (Resolved order)) sc)) = alerts sc \<and>
         awaiting (step (PressAlertButton (length (alerts sc)) 0)
                  (step (OrderSettled k (Resolved order)) sc)) =
           drop_nth k (awaiting sc) @ [Awaiting_loadProducts] \<and>
         filter is_fetch (trace (step (OrderSettled k (Rejected e)) sc)) =
           filter is_fetch (trace sc) \<and>
         trace (step (PressAlertButton (length (alerts sc)) b)
                  (step (OrderSettled k (Rejected e)) sc)) =
           trace (step (OrderSettled k (Rejected e)) sc) \<and>
         awaiting (step (PressAlertButton (length (alerts sc)) b)
                  (step (OrderSettled k (Rejected e)) sc)) = drop_nth k (awaiting sc)"
  unfolding settle_order_rejected [OF assms] settle_order_resolved [OF assms]
  by (simp add: press_def call_loadProducts_eq success_alert_def)

theorem reload_after_acknowledged_success_only_witness:
  "0 < length (awaiting (run (order_first [rice]) (mount None))) \<and>
   awaiting (run (order_first [rice]) (mount None)) ! 0 = Awaiting_placeOrder \<and>
   filter is_fetch (trace (run
      (order_first [rice] @ [OrderSettled 0 (Resolved (Order ''ORD-123''))])
      (mount None))) = [GetInventory None (Some True)] \<and>
   filter is_fetch (trace (run
      (order_first [rice] @ [OrderSettled 0 (Resolved (Order ''ORD-123'')), PressAlertButton 0 0])
      (mount None))) = [GetInventory None (Some True), GetInventory None (Some True)] \<and>
   filter is_fetch (trace (run
      (order_first [rice] @ [OrderSettled 0 (Rejected (Error None)), PressAlertButton 0 0])
      (mount None))) = [GetInventory None (Some True)]"
proof -
  have h1: "0 < length (awaiting (run (order_first [rice]) (mount None)))"
    by (simp add: run_order_first)
  have h2: "awaiting (run (order_first [rice]) (mount None)) ! 0 = Awaiting_placeOrder"
    by (simp add: run_order_first)
  from reload_after_acknowledged_success_only
    [OF h1 h2, of "Order ''ORD-123''" "Error None" 0] h1 h2
  show ?thesis
    by (simp add: run_order_first press_def call_loadProducts_eq drop_nth_def success_alert_def)
qed

text \<open>
  Claim C8. Every request passed to \<^verbatim>\<open>createOrder\<close> has the delivery address
  "Default Address", the \<^verbatim>\<open>userId\<close> the component was given, or "USER001" when it was
  given none, and the price of a product the service delivered. The product is fixed when
  the order button is pressed: the confirmation alert holds the product of that card and
  the \<^verbatim>\<open>userId\<close> of that moment, and confirming it, in whatever state the screen is by
  then, submits the request built from exactly these.
\<close>

theorem request_fields_fixed_at_selection:
  "(r \<in> set (requests (trace (run evs (mount prop)))) \<longrightarrow>
      delivery_address r = ''Default Address'' \<and>
      user_id r = (case prop of None \<Rightarrow> ''USER001'' | Some u \<Rightarrow> u) \<and>
      (\<exists>p \<in> set (received evs). r = orderRequest (user_id r) p \<and>
         OrderRequest.price r = Product.price p)) \<and>
   (render (view sc) = Cards ps \<and> i < length ps \<longrightarrow>
      alerts (step (PressOrderButton i) sc) =
        alerts sc @ [handlePlaceOrder (prop_userId sc) (products (view sc) ! i)]) \<and>
   (d < length (alerts sc') \<and> alerts sc' ! d = handlePlaceOrder u p \<longrightarrow>
      trace (step (PressAlertButton d 1) sc') = trace sc' @ [CreateOrder (orderRequest u p)] \<and>
      OrderRequest.price (orderRequest u p) = Product.price p \<and>
      user_id (orderRequest u p) = u)"
proof (intro conjI impI)
  assume "r \<in> set (requests (trace (run evs (mount prop))))"
  then obtain p where p: "p \<in> set (received evs)"
    and r: "r = orderRequest (OffersScreen_userId prop) p"
    using submitted_requests by blast
  from r show "delivery_address r = ''Default Address''" by (simp add: orderRequest_def)
  from r show u: "user_id r = (case prop of None \<Rightarrow> ''USER001'' | Some u \<Rightarrow> u)"
    by (simp add: orderRequest_def OffersScreen_userId_def)
  from r have "user_id r = OffersScreen_userId prop" by (simp add: orderRequest_def)
  with r have "r = orderRequest (user_id r) p \<and> OrderRequest.price r = Product.price p"
    by (simp add: orderRequest_def)
  with p show "\<exists>p \<in> set (received evs). r = orderRequest (user_id r) p \<and>
         OrderRequest.price r = Product.price p" by blast
next
  assume "render (view sc) = Cards ps \<and> i < length ps"
  moreover from this have "ps = products (view sc)" using render_Cards by blast
  ultimately show "alerts (step (PressOrderButton i) sc) =
        alerts sc @ [handlePlaceOrder (prop_userId sc) (products (view sc) ! i)]" by simp
next
  assume a: "d < length (alerts sc') \<and> alerts sc' ! d = handlePlaceOrder u p"
  then show "trace (step (PressAlertButton d 1) sc') = trace sc' @ [CreateOrder (orderRequest u p)]"
    by (simp add: press_def handlePlaceOrder_def placeOrder_begin_def)
  show "OrderRequest.price (orderRequest u p) = Product.price p" by (simp add: orderRequest_def)
  show "user_id (orderRequest u p) = u" by (simp add: orderRequest_def)
qed

theorem request_fields_fixed_at_selection_witness:
  "orderRequest ''RETAILER7'' rice
     \<in> set (requests (trace (run (order_first [rice]) (mount (Some ''RETAILER7''))))) \<and>
   delivery_address (orderRequest ''RETAILER7'' rice) = ''Default Address'' \<and>
   user_id (orderRequest ''RETAILER7'' rice) = ''RETAILER7'' \<and>
   render (view (run [InventorySettled 0 (Resolved [rice])] (mount None))) = Cards [rice] \<and>
   0 < length [rice] \<and>
   alerts (step (PressOrderButton 0) (run [InventorySettled 0 (Resolved [rice])] (mount None))) =
     [handlePlaceOrder ''USER001'' rice] \<and>
   products (view (run (select_then_refresh [rice] [rice_repriced]) (mount None))) =
     [rice_repriced] \<and>
   0 < length (alerts (run (select_then_refresh [rice] [rice_repriced]) (mount None))) \<and>
   alerts (run (select_then_refresh [rice] [rice_repriced]) (mount None)) ! 0 =
     handlePlaceOrder ''USER001'' rice \<and>
   requests (trace (step (PressAlertButton 0 1)
      (run (select_then_refresh [rice] [rice_repriced]) (mount None)))) =
     [orderRequest ''USER001'' rice] \<and>
   OrderRequest.price (orderRequest ''USER001'' rice) = 40 \<and>
   Product.price rice_repriced = 45"
proof -
  let ?sel = "run [InventorySettled 0 (Resolved [rice])] (mount None) :: int Screen"
  let ?late = "run (select_then_refresh [rice] [rice_repriced]) (mount None) :: int Screen"
  have h1: "orderRequest ''RETAILER7'' rice
     \<in> set (requests (trace (run (order_first [rice]) (mount (Some ''RETAILER7'')))))"
    by (simp add: run_order_first OffersScreen_userId_def)
  have h2: "render (view ?sel) = Cards [rice] \<and> 0 < length [rice]"
    by (simp add: screen_defs)
  have h3: "0 < length (alerts ?late) \<and> alerts ?late ! 0 = handlePlaceOrder ''USER001'' rice"
    by (simp add: run_select_then_refresh OffersScreen_userId_def)
  from request_fields_fixed_at_selection
    [of "orderRequest ''RETAILER7'' rice" "order_first [rice]" "Some ''RETAILER7''"
        ?sel "[rice]" 0 0 ?late "''USER001''" rice]
    h1 h2 h3
  show ?thesis
    by (simp add: run_select_then_refresh OffersScreen_userId_def)
      (simp add: screen_defs OffersScreen_userId_def orderRequest_def rice_def rice_repriced_def)
qed

text \<open>
  Claim C9. Pressing "Cancel" on the confirmation alert dismisses the alert and does
  nothing else: the state (catalog and both flags) is the same, the trace is the same, so
  \<^verbatim>\<open>createOrder\<close> is not called and no alert is shown, and nothing new is awaited.
\<close>

theorem cancel_has_no_effect:
  assumes "d < length (alerts sc)" and "alerts sc ! d = handlePlaceOrder u p"
  shows "step (PressAlertButton d 0) sc = sc\<lparr>alerts := drop_nth d (alerts sc)\<rparr> \<and>
         view (step (PressAlertButton d 0) sc) = view sc \<and>
         trace (step (PressAlertButton d 0) sc) = trace sc \<and>
         awaiting (step (PressAlertButton d 0) sc) = awaiting sc"
  using assms by (simp add: press_def handlePlaceOrder_def)

theorem cancel_has_no_effect_witness:
  "0 < length (alerts (run (select_first [rice]) (mount None))) \<and>
   alerts (run (select_first [rice]) (mount None)) ! 0 = handlePlaceOrder ''USER001'' rice \<and>
   view (run (select_first [rice] @ [PressAlertButton 0 0]) (mount None)) =
     \<lparr> products = [rice], loading = False, refreshing = False \<rparr> \<and>
   trace (run (select_first [rice] @ [PressAlertButton 0 0]) (mount None)) =
     trace (run (select_first [rice]) (mount None)) \<and>
   requests (trace (run (select_first [rice] @ [PressAlertButton 0 0]) (mount None))) = [] \<and>
   alerts (run (select_first [rice] @ [PressAlertButton 0 0]) (mount None)) = [] \<and>
   awaiting (run (select_first [rice] @ [PressAlertButton 0 0]) (mount None)) = []"
proof -
  have h1: "0 < length (alerts (run (select_first [rice]) (mount None)))"
    by (simp add: run_select_first)
  have h2: "alerts (run (select_first [rice]) (mount None)) ! 0 = handlePlaceOrder ''USER001'' rice"
    by (simp add: run_select_first OffersScreen_userId_def)
  from cancel_has_no_effect [OF h1 h2] h1 h2 show ?thesis
    by (simp add: run_select_first drop_nth_def)
qed

end
